theory Spec2Isabelle
  imports Main "HOL-Library.Word"
begin

section \<open>The Go values the package static works with\<close>

text \<open>
  The package serves the UI assets of the server over HTTP. Its own code is short; what
  it calls in the Go library is modelled here as far as the package reads it: errors
  with their text and kind, time values read through \<open>IsZero\<close>, \<open>Day\<close> and \<open>Clock\<close>,
  files of an \<open>fs.FS\<close>, and a response writer made of a header map, a status and a body.
  What the package only hands on (the build date, the parser of the build date,
  \<open>os.DirFS\<close>, \<open>http.ServeContent\<close>) is a field of the environment record \<open>env\<close>.
\<close>

subsection \<open>Errors\<close>

datatype errno = ErrNotExist | ENOENT | ErrPermission | ErrInvalid | ENOTDIR

datatype error = PathError string string errno | ErrorString string

fun errnoText :: "errno \<Rightarrow> string" where
  "errnoText ErrNotExist = ''file does not exist''"
| "errnoText ENOENT = ''no such file or directory''"
| "errnoText ErrPermission = ''permission denied''"
| "errnoText ErrInvalid = ''invalid argument''"
| "errnoText ENOTDIR = ''not a directory''"

text \<open>The method \<open>err.Error()\<close>: a path error prints as \<open>op path: cause\<close>.\<close>

fun Error :: "error \<Rightarrow> string" where
  "Error (PathError opn p e) = opn @ '' '' @ p @ '': '' @ errnoText e"
| "Error (ErrorString s) = s"

text \<open>\<open>os.IsNotExist\<close> unwraps a path error and accepts the two not-exists causes only.\<close>

fun os_IsNotExist :: "error \<Rightarrow> bool" where
  "os_IsNotExist (PathError opn p e) = (e = ErrNotExist \<or> e = ENOENT)"
| "os_IsNotExist (ErrorString s) = False"

subsection \<open>Formatting integers with the verb \<open>%d\<close>\<close>

definition digit :: "nat \<Rightarrow> char" where
  "digit d = ''0123456789'' ! d"

function utoa :: "nat \<Rightarrow> string" where
  "utoa n = (if n < 10 then [digit n] else utoa (n div 10) @ [digit (n mod 10)])"
  by pat_completeness auto
termination
  by (relation "measure id") auto

declare utoa.simps [simp del]

definition itoa :: "int \<Rightarrow> string" where
  "itoa i = (if i < 0 then CHR ''-'' # utoa (nat (- i)) else utoa (nat i))"

subsection \<open>Time values\<close>

text \<open>
  A \<open>time.Time\<close> is modelled by its civil reading in the location it carries, with the
  offset of that location from UTC in seconds. \<open>Day\<close> and \<open>Clock\<close> read that record.
  The zero value \<open>time.Time{}\<close> is January 1 of year 1, 00:00:00 UTC; \<open>IsZero\<close> holds of
  it (a zero instant carried in another location is not distinguished here: the
  embedded file system reports \<open>time.Time{}\<close> itself).
\<close>

record time =
  tYear :: int
  tMonth :: int
  tDay :: int
  tHour :: int
  tMinute :: int
  tSecond :: int
  tNanosecond :: int
  tZoneOffset :: int

definition zeroTime :: time where
  "zeroTime = \<lparr>tYear = 1, tMonth = 1, tDay = 1, tHour = 0, tMinute = 0, tSecond = 0,
     tNanosecond = 0, tZoneOffset = 0\<rparr>"

definition IsZero :: "time \<Rightarrow> bool" where
  "IsZero t = (t = zeroTime)"

definition Day :: "time \<Rightarrow> int" where
  "Day t = tDay t"

definition Clock :: "time \<Rightarrow> int \<times> int \<times> int" where
  "Clock t = (tHour t, tMinute t, tSecond t)"

subsection \<open>Files and file systems\<close>

record fileInfo =
  Name :: string
  Size :: "64 word"
  ModTime :: time
  IsDir :: bool

text \<open>
  An open \<open>fs.File\<close>: whether the handle is also an \<open>io.ReadSeeker\<close>, what \<open>Stat\<close>
  returns, and the bytes a reader gets. An \<open>fs.FS\<close> is its method \<open>Open\<close>.
\<close>

record fsFile =
  readSeeker :: bool
  Stat :: "error + fileInfo"
  bytes :: string

type_synonym FS = "string \<Rightarrow> error + fsFile"

subsection \<open>Requests and response writers\<close>

text \<open>
  A header maps a name to the list of its values; a name without values is absent. Names
  are kept as the source spells them (the Go library stores them in a canonical
  spelling, which sets apart no two names that are used here).
\<close>

type_synonym Header = "string \<Rightarrow> string list"

definition Header_Add :: "Header \<Rightarrow> string \<Rightarrow> string \<Rightarrow> Header" where
  "Header_Add h k v = h(k := h k @ [v])"

definition Header_Set :: "Header \<Rightarrow> string \<Rightarrow> string \<Rightarrow> Header" where
  "Header_Set h k v = h(k := [v])"

definition Header_Del :: "Header \<Rightarrow> string \<Rightarrow> Header" where
  "Header_Del h k = h(k := [])"

record request =
  reqMethod :: string
  urlPath :: string
  reqHeader :: Header

text \<open>A response writer; status 0 means that no status line has been written yet.\<close>

record responseWriter =
  header :: Header
  status :: nat
  body :: string

definition newWriter :: responseWriter where
  "newWriter = \<lparr>header = (\<lambda>k. []), status = 0, body = []\<rparr>"

definition WriteHeader :: "responseWriter \<Rightarrow> nat \<Rightarrow> responseWriter" where
  "WriteHeader w code = (if status w = 0 then w\<lparr>status := code\<rparr> else w)"

definition Write :: "responseWriter \<Rightarrow> string \<Rightarrow> responseWriter" where
  "Write w b = (let w1 = WriteHeader w 200 in w1\<lparr>body := body w1 @ b\<rparr>)"

definition StatusNotFound :: nat where
  "StatusNotFound = 404"

definition StatusInternalServerError :: nat where
  "StatusInternalServerError = 500"

text \<open>
  \<open>http.Error\<close>: drops \<open>Content-Length\<close>, sets the content type of a plain text, writes
  the status and prints the message with \<open>Fprintln\<close>, that is followed by a newline.
\<close>

definition http_Error :: "responseWriter \<Rightarrow> string \<Rightarrow> nat \<Rightarrow> responseWriter" where
  "http_Error w msg code =
     (let h1 = Header_Del (header w) ''Content-Length'';
          h2 = Header_Set h1 ''Content-Type'' ''text/plain; charset=utf-8'';
          h3 = Header_Set h2 ''X-Content-Type-Options'' ''nosniff'';
          w1 = WriteHeader (w\<lparr>header := h3\<rparr>) code
      in Write w1 (msg @ [CHR 0x0A]))"

subsection \<open>What the package takes from outside\<close>

text \<open>
  \<open>data\<close> is the embedded file system of the package, \<open>DirFS\<close> is \<open>os.DirFS\<close>,
  \<open>buildDate\<close> is \<open>platform.GetBuildInfo().Date\<close>, \<open>parseRFC3339 s\<close> is
  \<open>time.Parse(time.RFC3339, s)\<close>, and \<open>ServeContent w r name modtime content\<close> is
  \<open>http.ServeContent\<close>.
\<close>

record env =
  data :: FS
  DirFS :: "string \<Rightarrow> FS"
  buildDate :: string
  parseRFC3339 :: "string \<Rightarrow> error + time"
  ServeContent :: "responseWriter \<Rightarrow> request \<Rightarrow> string \<Rightarrow> time \<Rightarrow> string \<Rightarrow> responseWriter"

section \<open>Paths\<close>

text \<open>
  \<open>strings.TrimPrefix\<close>, and \<open>path.Clean\<close> as the Go library writes it: one pass over
  the path, an output buffer \<open>out\<close> (its length is the write index \<open>out.w\<close>) and the
  index \<open>dotdot\<close> below which a \<open>..\<close> element must not remove anything.
\<close>

definition TrimPrefix :: "string \<Rightarrow> string \<Rightarrow> string" where
  "TrimPrefix s pre = (if take (length pre) s = pre then drop (length pre) s else s)"

function backtrack :: "string \<Rightarrow> nat \<Rightarrow> nat \<Rightarrow> nat" where
  "backtrack buf dotdot w =
     (if w > dotdot \<and> buf ! w \<noteq> CHR ''/'' then backtrack buf dotdot (w - 1) else w)"
  by pat_completeness auto
termination
  by (relation "measure (\<lambda>(buf, dotdot, w). w)") auto

declare backtrack.simps [simp del]

function cleanLoop :: "bool \<Rightarrow> string \<Rightarrow> string \<Rightarrow> nat \<Rightarrow> string" where
  "cleanLoop rooted [] out dotdot = out"
| "cleanLoop rooted (c # cs) out dotdot =
     (if c = CHR ''/'' then cleanLoop rooted cs out dotdot
      else if c = CHR ''.'' \<and> (cs = [] \<or> hd cs = CHR ''/'') then cleanLoop rooted cs out dotdot
      else if c = CHR ''.'' \<and> hd cs = CHR ''.'' \<and> (tl cs = [] \<or> hd (tl cs) = CHR ''/'') then
        (if length out > dotdot then
           cleanLoop rooted (tl cs) (take (backtrack out dotdot (length out - 1)) out) dotdot
         else if \<not> rooted then
           (let out1 = (if length out > 0 then out @ ''/'' else out) @ ''..''
            in cleanLoop rooted (tl cs) out1 (length out1))
         else cleanLoop rooted (tl cs) out dotdot)
      else
        (let out1 = (if rooted \<and> length out \<noteq> 1 \<or> \<not> rooted \<and> length out \<noteq> 0
                     then out @ ''/'' else out)
         in cleanLoop rooted (dropWhile (\<lambda>x. x \<noteq> CHR ''/'') cs)
              (out1 @ c # takeWhile (\<lambda>x. x \<noteq> CHR ''/'') cs) dotdot))"
  by pat_completeness auto
termination
  by (relation "measure (\<lambda>(rooted, rest, out, dotdot). length rest)")
     (auto simp: less_Suc_eq_le length_dropWhile_le)

declare cleanLoop.simps [simp del]

definition path_Clean :: "string \<Rightarrow> string" where
  "path_Clean p =
     (if p = [] then ''.''
      else
        (let rooted = (hd p = CHR ''/'');
             out = (if rooted then cleanLoop True (tl p) ''/'' 1 else cleanLoop False p [] 0)
         in if length out = 0 then ''.'' else out))"

text \<open>
  \<open>filepath.Join\<close> on a system whose separator is the slash: the elements from the first
  non-empty one on, joined by slashes and cleaned; the empty path when all are empty.
\<close>

fun strings_Join :: "string list \<Rightarrow> string \<Rightarrow> string" where
  "strings_Join [] sep = []"
| "strings_Join [e] sep = e"
| "strings_Join (e # es) sep = e @ sep @ strings_Join es sep"

fun filepath_Join :: "string list \<Rightarrow> string" where
  "filepath_Join [] = []"
| "filepath_Join (e # es) =
     (if e \<noteq> [] then path_Clean (strings_Join (e # es) ''/'') else filepath_Join es)"

declare filepath_Join.simps [simp del]

text \<open>
  \<open>fs.ValidPath\<close>, the test both \<open>os.DirFS\<close> and the embedded file system apply to a
  name before they open it: the name is \<open>.\<close>, or it is made of elements separated by
  single slashes, none of them empty, \<open>.\<close> or \<open>..\<close>. Such a name stays below the root
  of the file system. (The test of the UTF-8 encoding is left out: names are byte
  strings here.)
\<close>

function validElems :: "string \<Rightarrow> bool" where
  "validElems name =
     (if takeWhile (\<lambda>x. x \<noteq> CHR ''/'') name = []
         \<or> takeWhile (\<lambda>x. x \<noteq> CHR ''/'') name = ''.''
         \<or> takeWhile (\<lambda>x. x \<noteq> CHR ''/'') name = ''..'' then False
      else if dropWhile (\<lambda>x. x \<noteq> CHR ''/'') name = [] then True
      else validElems (tl (dropWhile (\<lambda>x. x \<noteq> CHR ''/'') name)))"
  by pat_completeness auto
termination
proof (relation "measure length")
  fix name :: string
  assume "dropWhile (\<lambda>x. x \<noteq> CHR ''/'') name \<noteq> []"
  then have "length (tl (dropWhile (\<lambda>x. x \<noteq> CHR ''/'') name))
      < length (dropWhile (\<lambda>x. x \<noteq> CHR ''/'') name)"
    by (cases "dropWhile (\<lambda>x. x \<noteq> CHR ''/'') name") simp_all
  also have "\<dots> \<le> length name"
    by (rule length_dropWhile_le)
  finally show "(tl (dropWhile (\<lambda>x. x \<noteq> CHR ''/'') name), name) \<in> measure length"
    by simp
qed simp

declare validElems.simps [simp del]

definition fs_ValidPath :: "string \<Rightarrow> bool" where
  "fs_ValidPath name = (name = ''.'' \<or> validElems name)"

text \<open>An element that may stand in a valid path.\<close>

definition goodElem :: "string \<Rightarrow> bool" where
  "goodElem e = (e \<noteq> [] \<and> e \<noteq> ''.'' \<and> e \<noteq> ''..'' \<and> CHR ''/'' \<notin> set e)"

section \<open>The package\<close>

definition defaultFile :: string where
  "defaultFile = ''index.html''"

definition embedBaseDir :: string where
  "embedBaseDir = ''data''"

definition uiBaseDir :: string where
  "uiBaseDir = ''build''"

definition swaggerFile :: string where
  "swaggerFile = ''swagger.json''"

text \<open>\<open>etag\<close>: the size, the day of the month and the clock, printed one after the other
  between two double quotes.\<close>

definition etag :: "64 word \<Rightarrow> time \<Rightarrow> string" where
  "etag s mt =
     (case Clock mt of (hour, minute, second) \<Rightarrow>
        [CHR 0x22] @ itoa (sint s) @ itoa (Day mt) @ itoa hour @ itoa minute @ itoa second
          @ [CHR 0x22])"

definition modTimeFromInfo :: "env \<Rightarrow> fileInfo \<Rightarrow> error + time" where
  "modTimeFromInfo e i =
     (let modTime = ModTime i
      in if IsZero modTime then parseRFC3339 e (buildDate e) else Inr modTime)"

definition staticFileHandler :: "env \<Rightarrow> fsFile \<Rightarrow> responseWriter \<Rightarrow> request \<Rightarrow> responseWriter" where
  "staticFileHandler e f w r =
     (if \<not> readSeeker f then
        http_Error w ''could not open file for reading'' StatusInternalServerError
      else
        (case Stat f of
           Inl err \<Rightarrow> http_Error w (Error err) StatusInternalServerError
         | Inr i \<Rightarrow>
             (case modTimeFromInfo e i of
                Inl err \<Rightarrow> http_Error w (Error err) StatusInternalServerError
              | Inr modTime \<Rightarrow>
                  ServeContent e
                    (w\<lparr>header := Header_Set (header w) ''ETag'' (etag (Size i) modTime)\<rparr>)
                    r (Name i) modTime (bytes f))))"

definition openAsset :: "FS \<Rightarrow> string \<Rightarrow> string \<Rightarrow> error + fsFile" where
  "openAsset fileOpener dir name =
     (case fileOpener (filepath_Join [dir, name]) of
        Inr f \<Rightarrow> Inr f
      | Inl err \<Rightarrow>
          (if os_IsNotExist err then fileOpener (filepath_Join [dir, defaultFile])
           else Inl err))"

text \<open>
  The name \<open>assetHandler\<close> asks \<open>openAsset\<close> for, from the path of the request: the
  first statements of the handler, under a name of their own. The deferred \<open>f.Close()\<close>
  of the handlers writes nothing to the response and is left out.
\<close>

definition assetName :: "string \<Rightarrow> string" where
  "assetName p =
     (let name = TrimPrefix (path_Clean p) ''/''
      in if name = [] then defaultFile else name)"

definition assetHandler :: "env \<Rightarrow> FS \<Rightarrow> string \<Rightarrow> responseWriter \<Rightarrow> request \<Rightarrow> responseWriter" where
  "assetHandler e fileOpener dir w r =
     (case openAsset fileOpener dir (assetName (urlPath r)) of
        Inl err \<Rightarrow> http_Error w (Error err) StatusNotFound
      | Inr f \<Rightarrow> staticFileHandler e f w r)"

definition mwSetCacheControl ::
  "(responseWriter \<Rightarrow> request \<Rightarrow> responseWriter) \<Rightarrow> responseWriter \<Rightarrow> request \<Rightarrow> responseWriter" where
  "mwSetCacheControl nxt w r =
     nxt (w\<lparr>header := Header_Add (header w) ''Cache-Control'' ''public, max-age=3600''\<rparr>) r"

definition NewAssetHandler :: "env \<Rightarrow> string \<Rightarrow> responseWriter \<Rightarrow> request \<Rightarrow> responseWriter" where
  "NewAssetHandler e assetsPath =
     mwSetCacheControl
       (if assetsPath \<noteq> [] then assetHandler e (DirFS e assetsPath) []
        else assetHandler e (data e) (filepath_Join [embedBaseDir, uiBaseDir]))"

definition NewSwaggerHandler :: "env \<Rightarrow> responseWriter \<Rightarrow> request \<Rightarrow> responseWriter" where
  "NewSwaggerHandler e =
     mwSetCacheControl
       (\<lambda>w r. case data e (filepath_Join [embedBaseDir, swaggerFile]) of
                Inl err \<Rightarrow> http_Error w (Error err) StatusNotFound
              | Inr f \<Rightarrow> staticFileHandler e f w r)"

section \<open>Sample sources and a sample environment\<close>

text \<open>
  The embedded file system, as the package \<open>embed\<close> opens it: a table from the names
  under the embedded directory to regular files and directories. A name that is not in
  the table is a not-exists path error; every entry has the zero modification time; a
  regular file opens as a seekable reader and a directory as a handle that is no
  \<open>io.ReadSeeker\<close>.
\<close>

datatype embedEntry = RegularFile string | Directory

definition baseName :: "string \<Rightarrow> string" where
  "baseName name = rev (takeWhile (\<lambda>x. x \<noteq> CHR ''/'') (rev name))"

definition embed_Open :: "(string \<times> embedEntry) list \<Rightarrow> FS" where
  "embed_Open files name =
     (case map_of files name of
        None \<Rightarrow> Inl (PathError ''open'' name ErrNotExist)
      | Some Directory \<Rightarrow>
          Inr \<lparr>readSeeker = False,
               Stat = Inr \<lparr>Name = baseName name, Size = 0, ModTime = zeroTime, IsDir = True\<rparr>,
               bytes = []\<rparr>
      | Some (RegularFile d) \<Rightarrow>
          Inr \<lparr>readSeeker = True,
               Stat = Inr \<lparr>Name = baseName name, Size = of_nat (length d),
                            ModTime = zeroTime, IsDir = False\<rparr>,
               bytes = d\<rparr>)"

definition sampleBundle :: "(string \<times> embedEntry) list" where
  "sampleBundle =
     [(''data'', Directory),
      (''data/swagger.json'', RegularFile ''{}''),
      (''data/build'', Directory),
      (''data/build/index.html'', RegularFile ''<html/>''),
      (''data/build/static'', Directory),
      (''data/build/static/app.js'', RegularFile ''run()'')]"

text \<open>A bundle built without assets and without the swagger document.\<close>

definition emptyBundle :: "(string \<times> embedEntry) list" where
  "emptyBundle = [(''data'', Directory)]"

text \<open>
  A directory on disk that holds \<open>index.html\<close> alone, as \<open>os.DirFS\<close> opens it: a name
  below the regular file \<open>index.html\<close> fails with \<open>ENOTDIR\<close>, any other name with
  \<open>ENOENT\<close>.
\<close>

definition sampleModTime :: time where
  "sampleModTime = \<lparr>tYear = 2021, tMonth = 1, tDay = 5, tHour = 10, tMinute = 0, tSecond = 0,
     tNanosecond = 0, tZoneOffset = 0\<rparr>"

definition sampleDisk :: FS where
  "sampleDisk name =
     (if name = ''index.html'' then
        Inr \<lparr>readSeeker = True,
             Stat = Inr \<lparr>Name = ''index.html'', Size = 7, ModTime = sampleModTime, IsDir = False\<rparr>,
             bytes = ''<html/>''\<rparr>
      else if take 11 name = ''index.html/'' then Inl (PathError ''open'' name ENOTDIR)
      else Inl (PathError ''open'' name ENOENT))"

text \<open>
  A build date with its parse, and the answer of \<open>http.ServeContent\<close> to a request
  that carries no precondition and no range: status 200 and the whole content.
\<close>

definition sampleBuildTime :: time where
  "sampleBuildTime = \<lparr>tYear = 2021, tMonth = 3, tDay = 4, tHour = 5, tMinute = 6, tSecond = 7,
     tNanosecond = 0, tZoneOffset = 0\<rparr>"

definition sampleParse :: "string \<Rightarrow> error + time" where
  "sampleParse s =
     (if s = ''2021-03-04T05:06:07Z'' then Inr sampleBuildTime
      else Inl (ErrorString ''cannot parse build date as RFC 3339''))"

definition serveWhole :: "responseWriter \<Rightarrow> request \<Rightarrow> string \<Rightarrow> time \<Rightarrow> string \<Rightarrow> responseWriter" where
  "serveWhole w r name modtime content = Write (WriteHeader w 200) content"

definition sampleEnv :: env where
  "sampleEnv = \<lparr>data = embed_Open sampleBundle, DirFS = (\<lambda>root. sampleDisk),
     buildDate = ''2021-03-04T05:06:07Z'', parseRFC3339 = sampleParse,
     ServeContent = serveWhole\<rparr>"

definition getRequest :: "string \<Rightarrow> request" where
  "getRequest p = \<lparr>reqMethod = ''GET'', urlPath = p, reqHeader = (\<lambda>k. [])\<rparr>"

text \<open>The handle the sample bundle opens for its \<open>index.html\<close>.\<close>

definition indexHandle :: fsFile where
  "indexHandle =
     \<lparr>readSeeker = True,
      Stat = Inr \<lparr>Name = ''index.html'', Size = 7, ModTime = zeroTime, IsDir = False\<rparr>,
      bytes = ''<html/>''\<rparr>"

section \<open>Properties\<close>

subsection \<open>Decimal printing is injective\<close>

lemma digit_cases:
  "a < 10 \<Longrightarrow> a = 0 \<or> a = 1 \<or> a = 2 \<or> a = 3 \<or> a = 4 \<or> a = 5 \<or> a = 6 \<or> a = 7 \<or> a = 8 \<or> a = (9::nat)"
  by arith

lemma digit_inj: "a < 10 \<Longrightarrow> b < 10 \<Longrightarrow> digit a = digit b \<Longrightarrow> a = b"
  using digit_cases [of a] digit_cases [of b]
  by (auto simp: digit_def)

lemma digit_not_minus: "a < 10 \<Longrightarrow> digit a \<noteq> CHR ''-''"
  using digit_cases [of a] by (auto simp: digit_def)

lemma utoa_nonempty: "utoa n \<noteq> []"
  by (subst utoa.simps) simp

lemma utoa_inj: "utoa n = utoa m \<Longrightarrow> n = m"
proof (induction n arbitrary: m rule: utoa.induct)
  case (1 n)
  show ?case
  proof (cases "n < 10")
    case small: True
    show ?thesis
    proof (cases "m < 10")
      case True
      with small "1.prems" show ?thesis
        by (simp add: utoa.simps [of n] utoa.simps [of m] digit_inj)
    next
      case False
      with small "1.prems" utoa_nonempty [of "m div 10"] show ?thesis
        by (simp add: utoa.simps [of n] utoa.simps [of m])
    qed
  next
    case big: False
    show ?thesis
    proof (cases "m < 10")
      case True
      with big "1.prems" utoa_nonempty [of "n div 10"] show ?thesis
        by (simp add: utoa.simps [of n] utoa.simps [of m])
    next
      case False
      with big "1.prems" have eq: "utoa (n div 10) = utoa (m div 10)"
        and d: "digit (n mod 10) = digit (m mod 10)"
        by (simp_all add: utoa.simps [of n] utoa.simps [of m])
      from "1.IH" [OF big eq] have "n div 10 = m div 10" .
      moreover from d have "n mod 10 = m mod 10"
        by (simp add: digit_inj)
      ultimately show ?thesis
        by (metis div_mult_mod_eq)
    qed
  qed
qed

lemma utoa_hd: "hd (utoa n) \<noteq> CHR ''-''"
proof (induction n rule: utoa.induct)
  case (1 n)
  then show ?case
    using utoa_nonempty [of "n div 10"]
    by (subst utoa.simps) (simp add: digit_not_minus)
qed

lemma utoa_not_minus: "utoa n \<noteq> CHR ''-'' # cs"
  using utoa_hd [of n] by auto

lemma itoa_inj: "itoa a = itoa b \<Longrightarrow> a = b"
proof (cases "a < 0"; cases "b < 0")
  assume "a < 0" "b < 0" "itoa a = itoa b"
  then have "nat (- a) = nat (- b)"
    by (simp add: itoa_def utoa_inj)
  with \<open>a < 0\<close> \<open>b < 0\<close> show ?thesis by simp
next
  assume "\<not> a < 0" "\<not> b < 0" "itoa a = itoa b"
  then have "nat a = nat b"
    by (simp add: itoa_def utoa_inj)
  with \<open>\<not> a < 0\<close> \<open>\<not> b < 0\<close> show ?thesis by simp
next
  assume "a < 0" "\<not> b < 0" "itoa a = itoa b"
  then show ?thesis
    using utoa_not_minus [of "nat b" "utoa (nat (- a))"] by (simp add: itoa_def)
next
  assume "\<not> a < 0" "b < 0" "itoa a = itoa b"
  then show ?thesis
    using utoa_not_minus [of "nat a" "utoa (nat (- b))"] by (simp add: itoa_def)
qed

lemma itoa_eq_iff: "itoa a = itoa b \<longleftrightarrow> a = b"
  using itoa_inj by auto

lemma sint_eq_iff: "sint (a :: 64 word) = sint b \<longleftrightarrow> a = b"
  by (auto intro: signed_word_eqI)

subsection \<open>The response writer\<close>

lemma status_http_Error: "status w = 0 \<Longrightarrow> code \<noteq> 0 \<Longrightarrow> status (http_Error w msg code) = code"
  by (simp add: http_Error_def WriteHeader_def Write_def Let_def)

lemma body_http_Error: "body (http_Error w msg code) = body w @ msg @ [CHR 0x0A]"
  by (simp add: http_Error_def WriteHeader_def Write_def Let_def)


lemma Join_swagger: "filepath_Join [embedBaseDir, swaggerFile] = ''data/swagger.json''"
  by (simp add: filepath_Join.simps embedBaseDir_def swaggerFile_def path_Clean_def cleanLoop.simps)

lemma Join_ui: "filepath_Join [embedBaseDir, uiBaseDir] = ''data/build''"
  by (simp add: filepath_Join.simps embedBaseDir_def uiBaseDir_def path_Clean_def cleanLoop.simps)

subsection \<open>The ETag\<close>

lemma etag_eq_iff:
  "etag s1 t1 = etag s2 t2 \<longleftrightarrow>
   itoa (sint s1) @ itoa (Day t1) @ itoa (tHour t1) @ itoa (tMinute t1) @ itoa (tSecond t1) =
   itoa (sint s2) @ itoa (Day t2) @ itoa (tHour t2) @ itoa (tMinute t2) @ itoa (tSecond t2)"
  by (simp add: etag_def Clock_def)

text \<open>
  Claim C3, as amended. The ETag prints five numbers one after the other: the size, the
  day of the month, the hour, the minute and the second. When exactly one of the five
  differs between two pairs of a size and a modification time, the two ETags differ.
  Nothing else of the modification time is printed, and the numbers are not separated:
  a change of the month alone, or of several numbers at once, can leave the ETag as it was.
\<close>

theorem etag_single_change:
  assumes "Clock t1 = (h1, m1, c1)" and "Clock t2 = (h2, m2, c2)"
    and "length (filter id [s1 \<noteq> s2, Day t1 \<noteq> Day t2, h1 \<noteq> h2, m1 \<noteq> m2, c1 \<noteq> c2]) = 1"
  shows "etag s1 t1 \<noteq> etag s2 t2"
  using assms
  by (auto simp: etag_eq_iff Clock_def itoa_eq_iff sint_eq_iff split: if_splits)

theorem etag_single_change_witness:
  "etag 7 sampleModTime \<noteq> etag 8 sampleModTime
   \<and> etag 7 sampleModTime \<noteq> etag 7 (sampleModTime\<lparr>tSecond := 1\<rparr>)"
  using etag_single_change [of sampleModTime 10 0 0 sampleModTime 10 0 0 7 8]
    etag_single_change [of sampleModTime 10 0 0 "sampleModTime\<lparr>tSecond := 1\<rparr>" 10 0 1 7 7]
  by (simp add: Clock_def Day_def sampleModTime_def)

theorem etag_collision:
  "\<lparr>tYear = 2021, tMonth = 1, tDay = 5, tHour = 10, tMinute = 0, tSecond = 0, tNanosecond = 0, tZoneOffset = 0\<rparr>
     \<noteq> \<lparr>tYear = 2021, tMonth = 2, tDay = 5, tHour = 10, tMinute = 0, tSecond = 0, tNanosecond = 0, tZoneOffset = 0\<rparr>
   \<and> etag 7 \<lparr>tYear = 2021, tMonth = 1, tDay = 5, tHour = 10, tMinute = 0, tSecond = 0, tNanosecond = 0, tZoneOffset = 0\<rparr>
     = etag 7 \<lparr>tYear = 2021, tMonth = 2, tDay = 5, tHour = 10, tMinute = 0, tSecond = 0, tNanosecond = 0, tZoneOffset = 0\<rparr>
   \<and> (1 :: 64 word) \<noteq> 11
   \<and> etag 1 \<lparr>tYear = 2021, tMonth = 1, tDay = 11, tHour = 10, tMinute = 0, tSecond = 0, tNanosecond = 0, tZoneOffset = 0\<rparr>
     = etag 11 \<lparr>tYear = 2021, tMonth = 1, tDay = 1, tHour = 10, tMinute = 0, tSecond = 0, tNanosecond = 0, tZoneOffset = 0\<rparr>"
  by (simp add: etag_def Clock_def Day_def itoa_def utoa.simps digit_def)

text \<open>
  Claim C4. The ETag is a function of the size and the effective modification time: two
  requests that observe a file with the same size and the same effective modification
  time are answered with the same \<open>ETag\<close> header, the value \<open>etag\<close> computes from that
  size and time (\<open>http.ServeContent\<close> reads the header and is taken to leave it as set).
\<close>

theorem etag_deterministic:
  assumes "readSeeker f1" and "Stat f1 = Inr i1" and "modTimeFromInfo e i1 = Inr mt"
    and "readSeeker f2" and "Stat f2 = Inr i2" and "modTimeFromInfo e i2 = Inr mt"
    and "Size i1 = Size i2"
    and "\<And>w r n t c. header (ServeContent e w r n t c) ''ETag'' = header w ''ETag''"
  shows "header (staticFileHandler e f1 w1 r1) ''ETag'' = [etag (Size i1) mt]
       \<and> header (staticFileHandler e f2 w2 r2) ''ETag'' = [etag (Size i1) mt]"
  using assms by (simp add: staticFileHandler_def Header_Set_def)

lemma header_serveWhole: "header (serveWhole w r n t c) k = header w k"
  by (simp add: serveWhole_def Write_def WriteHeader_def Let_def)

lemma status_serveWhole: "status w = 0 \<Longrightarrow> status (serveWhole w r n t c) = 200"
  by (simp add: serveWhole_def Write_def WriteHeader_def Let_def)

lemma body_serveWhole: "body (serveWhole w r n t c) = body w @ c"
  by (simp add: serveWhole_def Write_def WriteHeader_def Let_def)

lemma open_sample_index: "embed_Open sampleBundle ''data/build/index.html'' = Inr indexHandle"
  by (simp add: embed_Open_def sampleBundle_def indexHandle_def baseName_def)

lemma sampleEnv_simps:
  "data sampleEnv = embed_Open sampleBundle" "DirFS sampleEnv root = sampleDisk"
  "buildDate sampleEnv = ''2021-03-04T05:06:07Z''" "parseRFC3339 sampleEnv = sampleParse"
  "ServeContent sampleEnv = serveWhole"
  by (simp_all add: sampleEnv_def)

lemma modTime_sample_index:
  "modTimeFromInfo sampleEnv \<lparr>Name = ''index.html'', Size = 7, ModTime = zeroTime, IsDir = False\<rparr>
     = Inr sampleBuildTime"
  by (simp add: modTimeFromInfo_def IsZero_def sampleEnv_simps sampleParse_def)

theorem etag_deterministic_witness:
  "header (staticFileHandler sampleEnv indexHandle newWriter (getRequest ''/'')) ''ETag''
     = [etag 7 sampleBuildTime]
   \<and> header (staticFileHandler sampleEnv indexHandle newWriter (getRequest ''/nonexistent/route'')) ''ETag''
     = [etag 7 sampleBuildTime]"
  using etag_deterministic [of indexHandle
      "\<lparr>Name = ''index.html'', Size = 7, ModTime = zeroTime, IsDir = False\<rparr>"
      sampleEnv sampleBuildTime indexHandle
      "\<lparr>Name = ''index.html'', Size = 7, ModTime = zeroTime, IsDir = False\<rparr>"
      newWriter "getRequest ''/''" newWriter "getRequest ''/nonexistent/route''"]
  by (simp add: indexHandle_def modTime_sample_index sampleEnv_simps header_serveWhole)

subsection \<open>The cache-control wrapper\<close>





subsection \<open>The schema endpoint\<close>

text \<open>
  Claim C6. The schema endpoint has no fallback: when the schema document does not open
  in the embedded file system, the response is 404, its body is the message of the open
  error (as \<open>http.Error\<close> prints it, with a newline at its end), and no other file
  takes part in it.
\<close>

theorem swagger_absent_is_404:
  assumes "data e ''data/swagger.json'' = Inl err" and "status w = 0"
  shows "NewSwaggerHandler e w r =
           http_Error (w\<lparr>header := Header_Add (header w) ''Cache-Control'' ''public, max-age=3600''\<rparr>)
             (Error err) StatusNotFound
       \<and> status (NewSwaggerHandler e w r) = 404
       \<and> body (NewSwaggerHandler e w r) = body w @ Error err @ [CHR 0x0A]"
  using assms
  by (simp add: NewSwaggerHandler_def mwSetCacheControl_def Join_swagger status_http_Error
      body_http_Error StatusNotFound_def)

theorem swagger_absent_is_404_witness:
  "status (NewSwaggerHandler (sampleEnv\<lparr>data := embed_Open emptyBundle\<rparr>) newWriter
      (getRequest ''/api/swagger.json'')) = 404
   \<and> body (NewSwaggerHandler (sampleEnv\<lparr>data := embed_Open emptyBundle\<rparr>) newWriter
      (getRequest ''/api/swagger.json''))
     = ''open data/swagger.json: file does not exist'' @ [CHR 0x0A]"
  using swagger_absent_is_404 [of "sampleEnv\<lparr>data := embed_Open emptyBundle\<rparr>"
      "PathError ''open'' ''data/swagger.json'' ErrNotExist" newWriter "getRequest ''/api/swagger.json''"]
  by (simp add: embed_Open_def emptyBundle_def newWriter_def status_http_Error body_http_Error
      StatusNotFound_def)

subsection \<open>The modification time of embedded files\<close>

text \<open>
  Claim C7. For a file whose metadata report the zero modification time, the effective
  modification time is the parse of the build date: the ETag is computed from it and
  \<open>http.ServeContent\<close> is called with it. When the build date does not parse, the
  handler answers 500 with the message of the parse error and returns.
\<close>

theorem zero_modtime_uses_build_date:
  assumes "readSeeker f" and "Stat f = Inr i" and "IsZero (ModTime i)" and "status w = 0"
  shows "case parseRFC3339 e (buildDate e) of
           Inr mt \<Rightarrow>
             modTimeFromInfo e i = Inr mt
             \<and> staticFileHandler e f w r =
                 ServeContent e (w\<lparr>header := Header_Set (header w) ''ETag'' (etag (Size i) mt)\<rparr>)
                   r (Name i) mt (bytes f)
         | Inl err \<Rightarrow>
             staticFileHandler e f w r = http_Error w (Error err) StatusInternalServerError
             \<and> status (staticFileHandler e f w r) = 500"
  using assms
  by (simp add: staticFileHandler_def modTimeFromInfo_def status_http_Error
      StatusInternalServerError_def split: sum.splits)

theorem zero_modtime_uses_build_date_witness:
  "staticFileHandler sampleEnv indexHandle newWriter (getRequest ''/'') =
     serveWhole (newWriter\<lparr>header := Header_Set (header newWriter) ''ETag'' (etag 7 sampleBuildTime)\<rparr>)
       (getRequest ''/'') ''index.html'' sampleBuildTime ''<html/>''
   \<and> status (staticFileHandler (sampleEnv\<lparr>buildDate := []\<rparr>) indexHandle newWriter (getRequest ''/'')) = 500"
  using zero_modtime_uses_build_date [of indexHandle
      "\<lparr>Name = ''index.html'', Size = 7, ModTime = zeroTime, IsDir = False\<rparr>"
      newWriter sampleEnv "getRequest ''/''"]
    zero_modtime_uses_build_date [of indexHandle
      "\<lparr>Name = ''index.html'', Size = 7, ModTime = zeroTime, IsDir = False\<rparr>"
      newWriter "sampleEnv\<lparr>buildDate := []\<rparr>" "getRequest ''/''"]
  by (simp add: indexHandle_def IsZero_def newWriter_def sampleEnv_simps sampleParse_def
      status_http_Error StatusInternalServerError_def)

subsection \<open>Opening an asset\<close>

lemma openAsset_found:
  "fo (filepath_Join [dir, name]) = Inr f \<Longrightarrow> openAsset fo dir name = Inr f"
  by (simp add: openAsset_def)

lemma openAsset_other_error:
  "fo (filepath_Join [dir, name]) = Inl err \<Longrightarrow> \<not> os_IsNotExist err \<Longrightarrow>
   openAsset fo dir name = Inl err"
  by (simp add: openAsset_def)

lemma openAsset_fallback:
  "fo (filepath_Join [dir, name]) = Inl err \<Longrightarrow> os_IsNotExist err \<Longrightarrow>
   openAsset fo dir name = fo (filepath_Join [dir, defaultFile])"
  by (simp add: openAsset_def)

lemma assetHandler_reads_two_paths:
  "fo1 (filepath_Join [dir, assetName (urlPath r)]) = fo2 (filepath_Join [dir, assetName (urlPath r)]) \<Longrightarrow>
   fo1 (filepath_Join [dir, defaultFile]) = fo2 (filepath_Join [dir, defaultFile]) \<Longrightarrow>
   assetHandler e fo1 dir w r = assetHandler e fo2 dir w r"
  by (simp add: assetHandler_def openAsset_def split: sum.splits)

lemma NewAssetHandler_unfold:
  "NewAssetHandler e assetsPath w r =
     assetHandler e (if assetsPath \<noteq> [] then DirFS e assetsPath else data e)
       (if assetsPath \<noteq> [] then [] else ''data/build'')
       (w\<lparr>header := Header_Add (header w) ''Cache-Control'' ''public, max-age=3600''\<rparr>) r"
  by (simp add: NewAssetHandler_def mwSetCacheControl_def Join_ui)

lemma staticFileHandler_served:
  "readSeeker f \<Longrightarrow> Stat f = Inr i \<Longrightarrow> modTimeFromInfo e i = Inr mt \<Longrightarrow>
   staticFileHandler e f w r =
     ServeContent e (w\<lparr>header := Header_Set (header w) ''ETag'' (etag (Size i) mt)\<rparr>)
       r (Name i) mt (bytes f)"
  by (simp add: staticFileHandler_def)

text \<open>
  Claim C10. On the asset endpoint every error of \<open>openAsset\<close> is answered with 404 and
  the message of the error as body, whatever the kind of the error. When the first open
  fails with an error that is not a not-exists error, \<open>openAsset\<close> returns that error
  without a look at the default document, so that the answer is 404 as well, not 500.
\<close>

theorem open_failure_is_404:
  assumes "status w = 0"
  shows "(openAsset fo dir (assetName (urlPath r)) = Inl err \<longrightarrow>
            assetHandler e fo dir w r = http_Error w (Error err) StatusNotFound
            \<and> status (assetHandler e fo dir w r) = 404
            \<and> body (assetHandler e fo dir w r) = body w @ Error err @ [CHR 0x0A])
       \<and> (fo (filepath_Join [dir, assetName (urlPath r)]) = Inl err \<and> \<not> os_IsNotExist err \<longrightarrow>
            openAsset fo dir (assetName (urlPath r)) = Inl err)"
  using assms
  by (simp add: assetHandler_def openAsset_other_error status_http_Error body_http_Error
      StatusNotFound_def)

lemma assetName_nested: "assetName ''/index.html/foo'' = ''index.html/foo''"
  by (simp add: assetName_def TrimPrefix_def path_Clean_def cleanLoop.simps)

lemma Join_empty_dir_nested: "filepath_Join [[], ''index.html/foo''] = ''index.html/foo''"
  by (simp add: filepath_Join.simps path_Clean_def cleanLoop.simps)

lemma Join_empty_dir_default: "filepath_Join [[], defaultFile] = ''index.html''"
  by (simp add: filepath_Join.simps defaultFile_def path_Clean_def cleanLoop.simps)

theorem open_failure_is_404_witness:
  "status (assetHandler sampleEnv sampleDisk [] newWriter (getRequest ''/index.html/foo'')) = 404
   \<and> body (assetHandler sampleEnv sampleDisk [] newWriter (getRequest ''/index.html/foo''))
     = ''open index.html/foo: not a directory'' @ [CHR 0x0A]"
  using open_failure_is_404 [of newWriter sampleDisk "[]" "getRequest ''/index.html/foo''"
      "PathError ''open'' ''index.html/foo'' ENOTDIR" sampleEnv]
  by (simp add: getRequest_def assetName_nested Join_empty_dir_nested sampleDisk_def newWriter_def
      openAsset_def status_http_Error body_http_Error StatusNotFound_def)

subsection \<open>Serving a file that exists, and the fallback\<close>

text \<open>
  Claim C1, as amended. When the normalized path of a request opens in the asset source
  as a seekable handle whose metadata can be read and whose effective modification time
  is there (a modification time that is not zero, or a build date that parses), the
  response is the one \<open>http.ServeContent\<close> gives for the name, the effective
  modification time and the bytes of that file, on a writer that carries the ETag.
  Where \<open>http.ServeContent\<close> answers with 200 and the whole content, the status is 200
  and the body is the bytes of the file.
\<close>

theorem existing_file_is_served:
  assumes "fo (filepath_Join [dir, assetName (urlPath r)]) = Inr f"
    and "readSeeker f" and "Stat f = Inr i" and "modTimeFromInfo e i = Inr mt"
    and "w1 = w\<lparr>header := Header_Set (header w) ''ETag'' (etag (Size i) mt)\<rparr>"
  shows "assetHandler e fo dir w r = ServeContent e w1 r (Name i) mt (bytes f)
       \<and> (status (ServeContent e w1 r (Name i) mt (bytes f)) = 200
            \<and> body (ServeContent e w1 r (Name i) mt (bytes f)) = bytes f \<longrightarrow>
          status (assetHandler e fo dir w r) = 200 \<and> body (assetHandler e fo dir w r) = bytes f)"
  using assms
  by (simp add: assetHandler_def openAsset_found staticFileHandler_served)

lemma assetName_app: "assetName ''/static/app.js'' = ''static/app.js''"
  by (simp add: assetName_def TrimPrefix_def path_Clean_def cleanLoop.simps)

lemma Join_build_app: "filepath_Join [''data/build'', ''static/app.js''] = ''data/build/static/app.js''"
  by (simp add: filepath_Join.simps path_Clean_def cleanLoop.simps)

lemma open_sample_app:
  "embed_Open sampleBundle ''data/build/static/app.js'' =
     Inr \<lparr>readSeeker = True,
          Stat = Inr \<lparr>Name = ''app.js'', Size = 5, ModTime = zeroTime, IsDir = False\<rparr>,
          bytes = ''run()''\<rparr>"
  by (simp add: embed_Open_def sampleBundle_def baseName_def)

theorem existing_file_500:
  "embed_Open sampleBundle (filepath_Join [''data/build'', assetName (urlPath (getRequest ''/static/app.js''))])
     = Inr \<lparr>readSeeker = True,
          Stat = Inr \<lparr>Name = ''app.js'', Size = 5, ModTime = zeroTime, IsDir = False\<rparr>,
          bytes = ''run()''\<rparr>
   \<and> status (assetHandler (sampleEnv\<lparr>buildDate := []\<rparr>) (embed_Open sampleBundle) ''data/build''
        newWriter (getRequest ''/static/app.js'')) = 500
   \<and> body (assetHandler (sampleEnv\<lparr>buildDate := []\<rparr>) (embed_Open sampleBundle) ''data/build''
        newWriter (getRequest ''/static/app.js'')) = ''cannot parse build date as RFC 3339'' @ [CHR 0x0A]"
  by (simp add: getRequest_def assetName_app Join_build_app open_sample_app assetHandler_def
      openAsset_def staticFileHandler_def modTimeFromInfo_def IsZero_def sampleEnv_simps
      sampleParse_def status_http_Error body_http_Error newWriter_def
      StatusInternalServerError_def)

theorem existing_file_is_served_witness:
  "status (assetHandler sampleEnv (embed_Open sampleBundle) ''data/build'' newWriter
      (getRequest ''/static/app.js'')) = 200
   \<and> body (assetHandler sampleEnv (embed_Open sampleBundle) ''data/build'' newWriter
      (getRequest ''/static/app.js'')) = ''run()''"
  using existing_file_is_served [of "embed_Open sampleBundle" "''data/build''"
      "getRequest ''/static/app.js''"
      "\<lparr>readSeeker = True,
        Stat = Inr \<lparr>Name = ''app.js'', Size = 5, ModTime = zeroTime, IsDir = False\<rparr>,
        bytes = ''run()''\<rparr>"
      "\<lparr>Name = ''app.js'', Size = 5, ModTime = zeroTime, IsDir = False\<rparr>"
      sampleEnv sampleBuildTime
      "newWriter\<lparr>header := Header_Set (header newWriter) ''ETag'' (etag 5 sampleBuildTime)\<rparr>"
      newWriter]
  by (simp add: getRequest_def assetName_app Join_build_app open_sample_app modTimeFromInfo_def
      IsZero_def sampleEnv_simps sampleParse_def status_serveWhole body_serveWhole newWriter_def)

text \<open>
  Claim C2, as amended. When the normalized path of a request fails to open with a
  not-exists error, the default document is opened in its place. If it opens as a
  seekable handle with readable metadata and an effective modification time, the response
  is the one \<open>http.ServeContent\<close> gives for the default document: status 200 and the
  bytes of the default document where \<open>http.ServeContent\<close> answers with the whole
  content. If the default document fails to open as well, the response is 404 with the
  message of that error.
\<close>

theorem missing_file_falls_back:
  assumes "fo (filepath_Join [dir, assetName (urlPath r)]) = Inl err" and "os_IsNotExist err"
    and "status w = 0"
  shows "(fo (filepath_Join [dir, defaultFile]) = Inr f \<and> readSeeker f \<and> Stat f = Inr i
            \<and> modTimeFromInfo e i = Inr mt
            \<and> w1 = w\<lparr>header := Header_Set (header w) ''ETag'' (etag (Size i) mt)\<rparr> \<longrightarrow>
          assetHandler e fo dir w r = ServeContent e w1 r (Name i) mt (bytes f)
          \<and> (status (ServeContent e w1 r (Name i) mt (bytes f)) = 200
               \<and> body (ServeContent e w1 r (Name i) mt (bytes f)) = bytes f \<longrightarrow>
             status (assetHandler e fo dir w r) = 200 \<and> body (assetHandler e fo dir w r) = bytes f))
       \<and> (fo (filepath_Join [dir, defaultFile]) = Inl err2 \<longrightarrow>
          status (assetHandler e fo dir w r) = 404
          \<and> body (assetHandler e fo dir w r) = body w @ Error err2 @ [CHR 0x0A])"
  using assms
  by (simp add: assetHandler_def openAsset_fallback staticFileHandler_served status_http_Error
      body_http_Error StatusNotFound_def)

lemma assetName_route: "assetName ''/nonexistent/route'' = ''nonexistent/route''"
  by (simp add: assetName_def TrimPrefix_def path_Clean_def cleanLoop.simps)

lemma Join_build_route:
  "filepath_Join [''data/build'', ''nonexistent/route''] = ''data/build/nonexistent/route''"
  by (simp add: filepath_Join.simps path_Clean_def cleanLoop.simps)

lemma Join_build_default: "filepath_Join [''data/build'', defaultFile] = ''data/build/index.html''"
  by (simp add: filepath_Join.simps defaultFile_def path_Clean_def cleanLoop.simps)

lemma open_sample_route:
  "embed_Open sampleBundle ''data/build/nonexistent/route''
     = Inl (PathError ''open'' ''data/build/nonexistent/route'' ErrNotExist)"
  by (simp add: embed_Open_def sampleBundle_def)

lemma open_empty_bundle: "embed_Open emptyBundle ''data/build/nonexistent/route''
     = Inl (PathError ''open'' ''data/build/nonexistent/route'' ErrNotExist)"
  "embed_Open emptyBundle ''data/build/index.html''
     = Inl (PathError ''open'' ''data/build/index.html'' ErrNotExist)"
  by (simp_all add: embed_Open_def emptyBundle_def)

theorem missing_file_falls_back_witness:
  "status (assetHandler sampleEnv (embed_Open sampleBundle) ''data/build'' newWriter
      (getRequest ''/nonexistent/route'')) = 200
   \<and> body (assetHandler sampleEnv (embed_Open sampleBundle) ''data/build'' newWriter
      (getRequest ''/nonexistent/route'')) = ''<html/>''
   \<and> status (assetHandler sampleEnv (embed_Open emptyBundle) ''data/build'' newWriter
      (getRequest ''/nonexistent/route'')) = 404"
  using missing_file_falls_back [of "embed_Open sampleBundle" "''data/build''"
      "getRequest ''/nonexistent/route''"
      "PathError ''open'' ''data/build/nonexistent/route'' ErrNotExist" newWriter indexHandle
      "\<lparr>Name = ''index.html'', Size = 7, ModTime = zeroTime, IsDir = False\<rparr>"
      sampleEnv sampleBuildTime
      "newWriter\<lparr>header := Header_Set (header newWriter) ''ETag'' (etag 7 sampleBuildTime)\<rparr>"
      "PathError ''open'' ''data/build/index.html'' ErrNotExist"]
    missing_file_falls_back [of "embed_Open emptyBundle" "''data/build''"
      "getRequest ''/nonexistent/route''"
      "PathError ''open'' ''data/build/nonexistent/route'' ErrNotExist" newWriter indexHandle
      "\<lparr>Name = ''index.html'', Size = 7, ModTime = zeroTime, IsDir = False\<rparr>"
      sampleEnv sampleBuildTime
      "newWriter\<lparr>header := Header_Set (header newWriter) ''ETag'' (etag 7 sampleBuildTime)\<rparr>"
      "PathError ''open'' ''data/build/index.html'' ErrNotExist"]
  by (simp add: getRequest_def assetName_route Join_build_route Join_build_default
      open_sample_route open_sample_index open_empty_bundle modTime_sample_index
      indexHandle_def sampleEnv_simps status_serveWhole body_serveWhole newWriter_def)

theorem missing_file_404_despite_default:
  "sampleDisk (filepath_Join [[], assetName (urlPath (getRequest ''/index.html/foo''))])
     = Inl (PathError ''open'' ''index.html/foo'' ENOTDIR)
   \<and> sampleDisk (filepath_Join [[], defaultFile])
     = Inr \<lparr>readSeeker = True,
          Stat = Inr \<lparr>Name = ''index.html'', Size = 7, ModTime = sampleModTime, IsDir = False\<rparr>,
          bytes = ''<html/>''\<rparr>
   \<and> status (assetHandler sampleEnv sampleDisk [] newWriter (getRequest ''/index.html/foo'')) = 404
   \<and> embed_Open sampleBundle
        (filepath_Join [''data/build'', assetName (urlPath (getRequest ''/nonexistent/route''))])
     = Inl (PathError ''open'' ''data/build/nonexistent/route'' ErrNotExist)
   \<and> embed_Open sampleBundle (filepath_Join [''data/build'', defaultFile]) = Inr indexHandle
   \<and> status (assetHandler (sampleEnv\<lparr>buildDate := []\<rparr>) (embed_Open sampleBundle) ''data/build''
        newWriter (getRequest ''/nonexistent/route'')) = 500"
  by (simp add: getRequest_def assetName_nested Join_empty_dir_nested Join_empty_dir_default
      assetName_route Join_build_route Join_build_default open_sample_route open_sample_index
      sampleDisk_def assetHandler_def openAsset_def staticFileHandler_def modTimeFromInfo_def
      IsZero_def indexHandle_def sampleEnv_simps sampleParse_def status_http_Error newWriter_def
      StatusNotFound_def StatusInternalServerError_def)

subsection \<open>Directories\<close>

lemma assetName_static: "assetName ''/static'' = ''static''"
  by (simp add: assetName_def TrimPrefix_def path_Clean_def cleanLoop.simps)

lemma Join_build_static: "filepath_Join [''data/build'', ''static''] = ''data/build/static''"
  by (simp add: filepath_Join.simps path_Clean_def cleanLoop.simps)

lemma open_sample_static:
  "embed_Open sampleBundle ''data/build/static'' =
     Inr \<lparr>readSeeker = False,
          Stat = Inr \<lparr>Name = ''static'', Size = 0, ModTime = zeroTime, IsDir = True\<rparr>,
          bytes = []\<rparr>"
  by (simp add: embed_Open_def sampleBundle_def baseName_def)

text \<open>
  Claim C8. The claim asks that a request for a path that names a directory be answered
  as a request for a missing file is: with the default document. The code does not do
  so. In the sample embedded bundle \<open>static\<close> is a directory and \<open>index.html\<close> is
  there. The request \<open>/static\<close> opens the directory, so that \<open>openAsset\<close> returns its
  handle and never looks at the default document; the handle is no \<open>io.ReadSeeker\<close>,
  and the answer is 500 with the text \<open>could not open file for reading\<close>. The request
  \<open>/nonexistent/route\<close> on the same bundle is answered with 200 and the bytes of
  \<open>index.html\<close>.
\<close>

theorem directory_differs_from_missing:
  "embed_Open sampleBundle (filepath_Join [''data/build'', assetName (urlPath (getRequest ''/static''))])
     = Inr \<lparr>readSeeker = False,
          Stat = Inr \<lparr>Name = ''static'', Size = 0, ModTime = zeroTime, IsDir = True\<rparr>,
          bytes = []\<rparr>
   \<and> embed_Open sampleBundle (filepath_Join [''data/build'', defaultFile]) = Inr indexHandle
   \<and> status (assetHandler sampleEnv (embed_Open sampleBundle) ''data/build'' newWriter
      (getRequest ''/static'')) = 500
   \<and> body (assetHandler sampleEnv (embed_Open sampleBundle) ''data/build'' newWriter
      (getRequest ''/static'')) = ''could not open file for reading'' @ [CHR 0x0A]
   \<and> status (assetHandler sampleEnv (embed_Open sampleBundle) ''data/build'' newWriter
      (getRequest ''/nonexistent/route'')) = 200
   \<and> body (assetHandler sampleEnv (embed_Open sampleBundle) ''data/build'' newWriter
      (getRequest ''/nonexistent/route'')) = ''<html/>''"
  by (simp add: getRequest_def assetName_static Join_build_static open_sample_static
      assetName_route Join_build_route Join_build_default open_sample_route open_sample_index
      assetHandler_def openAsset_def staticFileHandler_def modTime_sample_index indexHandle_def
      sampleEnv_simps status_http_Error body_http_Error status_serveWhole body_serveWhole
      newWriter_def StatusInternalServerError_def)

subsection \<open>Cleaning a path\<close>

lemma strings_Join_Cons: "es \<noteq> [] \<Longrightarrow> strings_Join (e # es) sep = e @ sep @ strings_Join es sep"
  by (cases es) simp_all

lemma strings_Join_append:
  "es1 \<noteq> [] \<Longrightarrow> es2 \<noteq> [] \<Longrightarrow>
   strings_Join (es1 @ es2) sep = strings_Join es1 sep @ sep @ strings_Join es2 sep"
proof (induction es1)
  case Nil
  then show ?case by simp
next
  case (Cons e es1)
  show ?case
  proof (cases "es1 = []")
    case True
    with Cons.prems show ?thesis by (simp add: strings_Join_Cons)
  next
    case False
    with Cons show ?thesis by (simp add: strings_Join_Cons)
  qed
qed

lemma strings_Join_good_nonempty:
  "es \<noteq> [] \<Longrightarrow> \<forall>e\<in>set es. goodElem e \<Longrightarrow> strings_Join es sep \<noteq> []"
  by (cases es; cases "tl es") (auto simp: goodElem_def)

lemma strings_Join_good_hd:
  "es \<noteq> [] \<Longrightarrow> \<forall>e\<in>set es. goodElem e \<Longrightarrow> hd (strings_Join es sep) \<noteq> CHR ''/''"
  by (cases es; cases "tl es") (auto simp: goodElem_def hd_append dest: hd_in_set)

lemma takeWhile_elem:
  "CHR ''/'' \<notin> set e \<Longrightarrow> rest = [] \<or> hd rest = CHR ''/'' \<Longrightarrow>
   takeWhile (\<lambda>x. x \<noteq> CHR ''/'') (e @ rest) = e"
  by (cases rest; induction e) auto

lemma dropWhile_elem:
  "CHR ''/'' \<notin> set e \<Longrightarrow> rest = [] \<or> hd rest = CHR ''/'' \<Longrightarrow>
   dropWhile (\<lambda>x. x \<noteq> CHR ''/'') (e @ rest) = rest"
  by (cases rest; induction e) auto

lemma validElems_last:
  assumes "CHR ''/'' \<notin> set e"
  shows "validElems e = (e \<noteq> [] \<and> e \<noteq> ''.'' \<and> e \<noteq> ''..'')"
proof -
  have tw: "takeWhile (\<lambda>x. x \<noteq> CHR ''/'') e = e" and dw: "dropWhile (\<lambda>x. x \<noteq> CHR ''/'') e = []"
    using assms takeWhile_elem [of e "[]"] dropWhile_elem [of e "[]"] by simp_all
  show ?thesis
    by (subst validElems.simps, simp only: tw dw, simp)
qed

lemma validElems_elem:
  assumes "CHR ''/'' \<notin> set e"
  shows "validElems (e @ CHR ''/'' # rest) = (e \<noteq> [] \<and> e \<noteq> ''.'' \<and> e \<noteq> ''..'' \<and> validElems rest)"
proof -
  have tw: "takeWhile (\<lambda>x. x \<noteq> CHR ''/'') (e @ CHR ''/'' # rest) = e"
    and dw: "dropWhile (\<lambda>x. x \<noteq> CHR ''/'') (e @ CHR ''/'' # rest) = CHR ''/'' # rest"
    using assms takeWhile_elem [of e "CHR ''/'' # rest"] dropWhile_elem [of e "CHR ''/'' # rest"]
    by simp_all
  show ?thesis
    by (subst validElems.simps, simp only: tw dw, simp)
qed

lemma validElems_Join:
  "es \<noteq> [] \<Longrightarrow> \<forall>e\<in>set es. goodElem e \<Longrightarrow> validElems (strings_Join es ''/'')"
proof (induction es)
  case Nil
  then show ?case by simp
next
  case (Cons e es)
  then show ?case
    by (cases "es = []") (simp_all add: strings_Join_Cons validElems_last validElems_elem goodElem_def)
qed

lemma cleanLoop_elem:
  assumes "goodElem e" and "rest = [] \<or> hd rest = CHR ''/''"
  shows "cleanLoop rooted (e @ rest) out dd =
           cleanLoop rooted rest
             ((if rooted \<and> length out \<noteq> 1 \<or> \<not> rooted \<and> length out \<noteq> 0 then out @ ''/'' else out) @ e)
             dd"
proof -
  from assms(1) obtain c t where e: "e = c # t"
    by (cases e) (auto simp: goodElem_def)
  from assms(1) e have c: "c \<noteq> CHR ''/''" and t: "CHR ''/'' \<notin> set t"
    by (auto simp: goodElem_def)
  have not_dot: "\<not> (c = CHR ''.'' \<and> (t @ rest = [] \<or> hd (t @ rest) = CHR ''/''))"
    using assms e t by (cases t) (auto simp: goodElem_def)
  have not_dotdot:
    "\<not> (c = CHR ''.'' \<and> hd (t @ rest) = CHR ''.''
        \<and> (tl (t @ rest) = [] \<or> hd (tl (t @ rest)) = CHR ''/''))"
    using assms e t by (cases t; cases "tl t") (auto simp: goodElem_def)
  have "cleanLoop rooted (c # (t @ rest)) out dd =
          cleanLoop rooted (dropWhile (\<lambda>x. x \<noteq> CHR ''/'') (t @ rest))
            ((if rooted \<and> length out \<noteq> 1 \<or> \<not> rooted \<and> length out \<noteq> 0 then out @ ''/'' else out)
              @ c # takeWhile (\<lambda>x. x \<noteq> CHR ''/'') (t @ rest)) dd"
    by (simp only: cleanLoop.simps(2) c not_dot not_dotdot if_False Let_def)
  with e t assms(2) show ?thesis
    by (simp add: takeWhile_elem dropWhile_elem)
qed

lemma cleanLoop_Join:
  "es \<noteq> [] \<Longrightarrow> \<forall>e\<in>set es. goodElem e \<Longrightarrow>
   cleanLoop False (strings_Join es ''/'') out dd =
     (if out = [] then [] else out @ ''/'') @ strings_Join es ''/''"
proof (induction es arbitrary: out)
  case Nil
  then show ?case by simp
next
  case (Cons e es)
  from Cons.prems have e: "goodElem e" by simp
  let ?o = "(if out = [] then [] else out @ ''/'') @ e"
  have step: "rest = [] \<or> hd rest = CHR ''/'' \<Longrightarrow>
      cleanLoop False (e @ rest) out dd = cleanLoop False rest ?o dd" for rest
    using cleanLoop_elem [OF e, of rest False out dd] by (cases "out = []") simp_all
  show ?case
  proof (cases "es = []")
    case True
    with step [of "[]"] show ?thesis by (simp add: cleanLoop.simps)
  next
    case False
    from e have "?o \<noteq> []" by (simp add: goodElem_def)
    with False Cons.prems Cons.IH [of ?o]
    have "cleanLoop False (strings_Join es ''/'') ?o dd = ?o @ ''/'' @ strings_Join es ''/''"
      by simp
    moreover have "cleanLoop False (e @ CHR ''/'' # strings_Join es ''/'') out dd =
        cleanLoop False (strings_Join es ''/'') ?o dd"
      using step [of "CHR ''/'' # strings_Join es ''/''"] by (simp add: cleanLoop.simps)
    ultimately show ?thesis
      using False by (simp add: strings_Join_Cons)
  qed
qed

lemma path_Clean_Join:
  assumes "es \<noteq> []" and "\<forall>e\<in>set es. goodElem e"
  shows "path_Clean (strings_Join es ''/'') = strings_Join es ''/''"
  using assms strings_Join_good_nonempty [OF assms, of "''/''"]
    strings_Join_good_hd [OF assms, of "''/''"] cleanLoop_Join [OF assms, of "[]" 0]
  by (simp add: path_Clean_def)

lemma backtrack_stop:
  assumes "k \<le> w" and "\<forall>j. k < j \<and> j \<le> w \<longrightarrow> buf ! j \<noteq> CHR ''/''"
    and "k = dotdot \<or> dotdot < k \<and> buf ! k = CHR ''/''"
  shows "backtrack buf dotdot w = k"
  using assms
proof (induction buf dotdot w rule: backtrack.induct)
  case (1 buf dotdot w)
  show ?case
  proof (cases "k = w")
    case True
    with "1.prems" show ?thesis
      by (subst backtrack.simps) auto
  next
    case False
    with "1.prems" have go: "dotdot < w \<and> buf ! w \<noteq> CHR ''/''"
      by auto
    from False "1.prems" have "backtrack buf dotdot (w - 1) = k"
      by (intro "1.IH" [OF go]) auto
    with go show ?thesis
      by (subst backtrack.simps) simp
  qed
qed

lemma backtrack_rooted:
  assumes "\<forall>e\<in>set es. goodElem e" and "es \<noteq> []"
  shows "take (backtrack (CHR ''/'' # strings_Join es ''/'') 1
             (length (CHR ''/'' # strings_Join es ''/'') - 1))
           (CHR ''/'' # strings_Join es ''/'')
         = CHR ''/'' # strings_Join (butlast es) ''/''"
proof -
  from assms(2) obtain es0 e where es: "es = es0 @ [e]"
    by (cases es rule: rev_cases) auto
  with assms(1) have e: "e \<noteq> []" "CHR ''/'' \<notin> set e" and es0: "\<forall>x\<in>set es0. goodElem x"
    by (auto simp: goodElem_def)
  show ?thesis
  proof (cases "es0 = []")
    case True
    have "backtrack (CHR ''/'' # e) 1 (length e) = 1"
    proof (rule backtrack_stop)
      from e show "1 \<le> length e" by (cases e) simp_all
      show "\<forall>j. 1 < j \<and> j \<le> length e \<longrightarrow> (CHR ''/'' # e) ! j \<noteq> CHR ''/''"
      proof (intro allI impI)
        fix j assume j: "1 < j \<and> j \<le> length e"
        then have "(CHR ''/'' # e) ! j = e ! (j - 1)" by (cases j) simp_all
        moreover from j have "e ! (j - 1) \<in> set e" by (intro nth_mem) arith
        ultimately show "(CHR ''/'' # e) ! j \<noteq> CHR ''/''" using e by metis
      qed
      show "1 = (1::nat) \<or> 1 < (1::nat) \<and> (CHR ''/'' # e) ! 1 = CHR ''/''" by simp
    qed
    with True es show ?thesis by simp
  next
    case False
    define pre where "pre = CHR ''/'' # strings_Join es0 ''/''"
    have buf: "CHR ''/'' # strings_Join es ''/'' = pre @ CHR ''/'' # e"
      using False es by (simp add: strings_Join_append pre_def)
    from False es0 have pre: "1 < length pre"
      using strings_Join_good_nonempty [of es0 "''/''"]
      by (cases "strings_Join es0 ''/''") (simp_all add: pre_def)
    have "backtrack (pre @ CHR ''/'' # e) 1 (length pre + length e) = length pre"
    proof (rule backtrack_stop)
      show "length pre \<le> length pre + length e" by simp
      show "\<forall>j. length pre < j \<and> j \<le> length pre + length e \<longrightarrow>
                (pre @ CHR ''/'' # e) ! j \<noteq> CHR ''/''"
      proof (intro allI impI)
        fix j assume j: "length pre < j \<and> j \<le> length pre + length e"
        then have "(pre @ CHR ''/'' # e) ! j = (CHR ''/'' # e) ! (j - length pre)"
          by (simp add: nth_append)
        also from j have "\<dots> = e ! (j - length pre - 1)"
          by (cases "j - length pre") simp_all
        finally have "(pre @ CHR ''/'' # e) ! j = e ! (j - length pre - 1)" .
        moreover from j have "e ! (j - length pre - 1) \<in> set e" by (intro nth_mem) arith
        ultimately show "(pre @ CHR ''/'' # e) ! j \<noteq> CHR ''/''" using e by metis
      qed
      from pre show "length pre = 1 \<or> 1 < length pre \<and> (pre @ CHR ''/'' # e) ! length pre = CHR ''/''"
        by simp
    qed
    moreover have "length (CHR ''/'' # strings_Join es ''/'') - 1 = length pre + length e"
      by (simp add: buf)
    ultimately have "take (backtrack (CHR ''/'' # strings_Join es ''/'') 1
        (length (CHR ''/'' # strings_Join es ''/'') - 1)) (CHR ''/'' # strings_Join es ''/'') = pre"
      by (simp only: buf) simp
    with es show ?thesis
      by (simp add: pre_def)
  qed
qed

lemma takeWhile_elem_good:
  assumes "c \<noteq> CHR ''/''"
    and "\<not> (c = CHR ''.'' \<and> (cs = [] \<or> hd cs = CHR ''/''))"
    and "\<not> (c = CHR ''.'' \<and> hd cs = CHR ''.'' \<and> (tl cs = [] \<or> hd (tl cs) = CHR ''/''))"
  shows "goodElem (c # takeWhile (\<lambda>x. x \<noteq> CHR ''/'') cs)"
proof -
  have "CHR ''/'' \<notin> set (c # takeWhile (\<lambda>x. x \<noteq> CHR ''/'') cs)"
    using assms(1) by (auto dest: set_takeWhileD)
  moreover have "c # takeWhile (\<lambda>x. x \<noteq> CHR ''/'') cs \<noteq> ''.''"
    using assms(2) by (cases cs) (auto split: if_splits)
  moreover have "c # takeWhile (\<lambda>x. x \<noteq> CHR ''/'') cs \<noteq> ''..''"
    using assms(3) by (cases cs; cases "tl cs") (auto split: if_splits)
  ultimately show ?thesis
    by (simp add: goodElem_def)
qed

lemma cleanLoop_rooted:
  "\<forall>e\<in>set es. goodElem e \<Longrightarrow>
   \<exists>es'. (\<forall>e\<in>set es'. goodElem e)
     \<and> cleanLoop True rest (CHR ''/'' # strings_Join es ''/'') 1 = CHR ''/'' # strings_Join es' ''/''"
proof (induction "length rest" arbitrary: rest es rule: less_induct)
  case less
  note good = less.prems
  show ?case
  proof (cases rest)
    case Nil
    with good show ?thesis
      by (auto simp: cleanLoop.simps)
  next
    case (Cons c cs)
    define out where "out = CHR ''/'' # strings_Join es ''/''"
    have len_out: "1 < length out \<longleftrightarrow> es \<noteq> []"
      using good strings_Join_good_nonempty [of es "''/''"]
      by (cases "es = []") (auto simp: out_def)
    consider (slash) "c = CHR ''/''"
      | (dot) "c \<noteq> CHR ''/''" "c = CHR ''.'' \<and> (cs = [] \<or> hd cs = CHR ''/'')"
      | (dotdot) "c \<noteq> CHR ''/''" "\<not> (c = CHR ''.'' \<and> (cs = [] \<or> hd cs = CHR ''/''))"
          "c = CHR ''.'' \<and> hd cs = CHR ''.'' \<and> (tl cs = [] \<or> hd (tl cs) = CHR ''/'')"
      | (elem) "c \<noteq> CHR ''/''" "\<not> (c = CHR ''.'' \<and> (cs = [] \<or> hd cs = CHR ''/''))"
          "\<not> (c = CHR ''.'' \<and> hd cs = CHR ''.'' \<and> (tl cs = [] \<or> hd (tl cs) = CHR ''/''))"
      by blast
    then show ?thesis
    proof cases
      case slash
      then have "cleanLoop True rest out 1 = cleanLoop True cs out 1"
        by (simp add: Cons cleanLoop.simps(2))
      moreover from Cons have "length cs < length rest" by simp
      ultimately show ?thesis
        using less.hyps [of cs es] good by (simp add: out_def)
    next
      case dot
      then have "cleanLoop True rest out 1 = cleanLoop True cs out 1"
        by (simp add: Cons cleanLoop.simps(2))
      moreover from Cons have "length cs < length rest" by simp
      ultimately show ?thesis
        using less.hyps [of cs es] good by (simp add: out_def)
    next
      case dotdot
      from Cons dotdot have shorter: "length (tl cs) < length rest" by (cases cs) auto
      show ?thesis
      proof (cases "es = []")
        case True
        with len_out have "\<not> 1 < length out" by simp
        with dotdot have "cleanLoop True rest out 1 = cleanLoop True (tl cs) out 1"
          by (simp add: Cons cleanLoop.simps(2))
        then show ?thesis
          using less.hyps [OF shorter, of es] good by (simp add: out_def)
      next
        case False
        with len_out have "1 < length out" by simp
        with dotdot have "cleanLoop True rest out 1 =
            cleanLoop True (tl cs) (take (backtrack out 1 (length out - 1)) out) 1"
          by (simp add: Cons cleanLoop.simps(2))
        also have "take (backtrack out 1 (length out - 1)) out = CHR ''/'' # strings_Join (butlast es) ''/''"
          unfolding out_def using good False by (rule backtrack_rooted)
        finally have "cleanLoop True rest out 1 =
            cleanLoop True (tl cs) (CHR ''/'' # strings_Join (butlast es) ''/'') 1" .
        moreover from good have "\<forall>e\<in>set (butlast es). goodElem e"
          by (auto dest: in_set_butlastD)
        ultimately show ?thesis
          using less.hyps [OF shorter, of "butlast es"] by (simp add: out_def)
      qed
    next
      case elem
      define el where "el = c # takeWhile (\<lambda>x. x \<noteq> CHR ''/'') cs"
      from elem have el: "goodElem el"
        unfolding el_def by (rule takeWhile_elem_good)
      from elem have "cleanLoop True rest out 1 =
          cleanLoop True (dropWhile (\<lambda>x. x \<noteq> CHR ''/'') cs)
            ((if True \<and> length out \<noteq> 1 \<or> \<not> True \<and> length out \<noteq> 0 then out @ ''/'' else out) @ el) 1"
        by (simp only: Cons cleanLoop.simps(2) if_False Let_def el_def)
      also have "(if True \<and> length out \<noteq> 1 \<or> \<not> True \<and> length out \<noteq> 0 then out @ ''/'' else out) @ el
          = CHR ''/'' # strings_Join (es @ [el]) ''/''"
      proof (cases "es = []")
        case True
        then show ?thesis by (simp add: out_def)
      next
        case False
        with len_out have "length out \<noteq> 1" by simp
        with False show ?thesis
          by (simp add: out_def strings_Join_append)
      qed
      finally have "cleanLoop True rest out 1 =
          cleanLoop True (dropWhile (\<lambda>x. x \<noteq> CHR ''/'') cs) (CHR ''/'' # strings_Join (es @ [el]) ''/'') 1" .
      moreover have "length (dropWhile (\<lambda>x. x \<noteq> CHR ''/'') cs) < length rest"
        using Cons length_dropWhile_le [of "\<lambda>x. x \<noteq> CHR ''/''" cs] by simp
      moreover from good el have "\<forall>e\<in>set (es @ [el]). goodElem e" by simp
      ultimately show ?thesis
        using less.hyps [of "dropWhile (\<lambda>x. x \<noteq> CHR ''/'') cs" "es @ [el]"] by (simp add: out_def)
    qed
  qed
qed

lemma path_Clean_rooted:
  assumes "p \<noteq> []" and "hd p = CHR ''/''"
  shows "\<exists>es. (\<forall>e\<in>set es. goodElem e) \<and> path_Clean p = CHR ''/'' # strings_Join es ''/''"
proof -
  from cleanLoop_rooted [of "[]" "tl p"]
  obtain es where "\<forall>e\<in>set es. goodElem e"
    and "cleanLoop True (tl p) ''/'' 1 = CHR ''/'' # strings_Join es ''/''"
    by auto
  with assms show ?thesis
    by (auto simp: path_Clean_def)
qed

lemma assetName_rooted:
  assumes "p \<noteq> []" and "hd p = CHR ''/''"
  shows "\<exists>es. es \<noteq> [] \<and> (\<forall>e\<in>set es. goodElem e) \<and> assetName p = strings_Join es ''/''"
proof -
  from path_Clean_rooted [OF assms]
  obtain es where good: "\<forall>e\<in>set es. goodElem e"
    and clean: "path_Clean p = CHR ''/'' # strings_Join es ''/''"
    by auto
  show ?thesis
  proof (cases "es = []")
    case True
    with clean have "assetName p = strings_Join [defaultFile] ''/''"
      by (simp add: assetName_def TrimPrefix_def)
    moreover have "goodElem defaultFile"
      by (simp add: goodElem_def defaultFile_def)
    ultimately show ?thesis
      by (intro exI [of _ "[defaultFile]"]) simp
  next
    case False
    with good have "strings_Join es ''/'' \<noteq> []"
      by (rule strings_Join_good_nonempty [rotated])
    with clean have "assetName p = strings_Join es ''/''"
      by (simp add: assetName_def TrimPrefix_def)
    with False good show ?thesis
      by auto
  qed
qed

text \<open>
  Claim C9, as amended. For every request path that begins with a slash, whatever \<open>..\<close>
  elements it holds, the name \<open>assetHandler\<close> makes of it is a valid path in the sense of
  \<open>fs.ValidPath\<close> and is not \<open>.\<close>: it has no empty element, no \<open>.\<close> and no \<open>..\<close>.
  The path handed to the asset source is that name itself for a directory on disk, and
  \<open>data/build/\<close> followed by that name for the embedded assets, so that it stays below
  the directory of the assets.
\<close>

theorem rooted_path_stays_inside:
  assumes "p \<noteq> []" and "hd p = CHR ''/''"
  shows "fs_ValidPath (assetName p) \<and> assetName p \<noteq> ''.''
       \<and> filepath_Join [[], assetName p] = assetName p
       \<and> filepath_Join [filepath_Join [embedBaseDir, uiBaseDir], assetName p]
           = ''data/build/'' @ assetName p"
proof -
  from assetName_rooted [OF assms]
  obtain es where ne: "es \<noteq> []" and good: "\<forall>e\<in>set es. goodElem e"
    and name: "assetName p = strings_Join es ''/''"
    by auto
  from ne good have valid: "validElems (assetName p)"
    unfolding name by (rule validElems_Join)
  then have not_dot: "assetName p \<noteq> ''.''"
    by (auto simp: validElems_last)
  from ne good have nonempty: "assetName p \<noteq> []"
    unfolding name by (rule strings_Join_good_nonempty)
  from ne good have "path_Clean (assetName p) = assetName p"
    unfolding name by (rule path_Clean_Join)
  with nonempty have disk: "filepath_Join [[], assetName p] = assetName p"
    by (simp add: filepath_Join.simps)
  have "goodElem ''data''" and "goodElem ''build''"
    by (simp_all add: goodElem_def)
  with good have "\<forall>e\<in>set ([''data'', ''build''] @ es). goodElem e"
    by simp
  then have "path_Clean (strings_Join ([''data'', ''build''] @ es) ''/'')
      = strings_Join ([''data'', ''build''] @ es) ''/''"
    by (intro path_Clean_Join) simp_all
  moreover from ne have "strings_Join ([''data'', ''build''] @ es) ''/'' = ''data/build/'' @ assetName p"
    by (simp add: name strings_Join_Cons)
  ultimately have "filepath_Join [''data/build'', assetName p] = ''data/build/'' @ assetName p"
    by (simp add: filepath_Join.simps)
  with valid not_dot disk show ?thesis
    by (simp add: fs_ValidPath_def Join_ui)
qed

lemma assetName_escape_rooted: "assetName ''/static/../../../etc/passwd'' = ''etc/passwd''"
  by code_simp

lemma assetName_unrooted:
  "assetName ''../swagger.json'' = ''../swagger.json''"
  "assetName ''../../etc/passwd'' = ''../../etc/passwd''"
  by code_simp+

lemma Join_unrooted:
  "filepath_Join [''data/build'', ''../swagger.json''] = ''data/swagger.json''"
  "filepath_Join [''data/build'', ''../../etc/passwd''] = ''etc/passwd''"
  "filepath_Join [[], ''../../etc/passwd''] = ''../../etc/passwd''"
  by code_simp+

lemma not_valid_unrooted: "\<not> fs_ValidPath ''../swagger.json''"
  by code_simp

lemma open_sample_swagger:
  "embed_Open sampleBundle ''data/swagger.json'' =
     Inr \<lparr>readSeeker = True,
          Stat = Inr \<lparr>Name = ''swagger.json'', Size = 2, ModTime = zeroTime, IsDir = False\<rparr>,
          bytes = ''{}''\<rparr>"
  by (simp add: embed_Open_def sampleBundle_def baseName_def)

theorem rooted_path_stays_inside_witness:
  "fs_ValidPath (assetName ''/static/../../../etc/passwd'')
   \<and> filepath_Join [filepath_Join [embedBaseDir, uiBaseDir], assetName ''/static/../../../etc/passwd'']
       = ''data/build/etc/passwd''"
  using rooted_path_stays_inside [of "''/static/../../../etc/passwd''"]
  by (simp add: assetName_escape_rooted)

theorem unrooted_path_escapes:
  "\<not> fs_ValidPath (assetName ''../swagger.json'')
   \<and> filepath_Join [filepath_Join [embedBaseDir, uiBaseDir], assetName ''../swagger.json'']
       = ''data/swagger.json''
   \<and> filepath_Join [filepath_Join [embedBaseDir, uiBaseDir], assetName ''../../etc/passwd'']
       = ''etc/passwd''
   \<and> filepath_Join [[], assetName ''../../etc/passwd''] = ''../../etc/passwd''
   \<and> status (assetHandler sampleEnv (embed_Open sampleBundle) (filepath_Join [embedBaseDir, uiBaseDir])
        newWriter (getRequest ''../swagger.json'')) = 200
   \<and> body (assetHandler sampleEnv (embed_Open sampleBundle) (filepath_Join [embedBaseDir, uiBaseDir])
        newWriter (getRequest ''../swagger.json'')) = ''{}''"
  by (simp add: Join_ui assetName_unrooted Join_unrooted not_valid_unrooted getRequest_def
      assetHandler_def openAsset_def open_sample_swagger staticFileHandler_def
      modTimeFromInfo_def IsZero_def sampleEnv_simps sampleParse_def status_serveWhole
      body_serveWhole newWriter_def)

end
